theory Spec2Isabelle
  imports Complex_Main
begin

section \<open>Values of the script\<close>

text \<open>
  The ROI calculator is a single Python script (\<^verbatim>\<open>app.py\<close>) that is re-run from top
  to bottom each time a widget changes. Its numbers are Python \<^verbatim>\<open>int\<close>s and
  \<^verbatim>\<open>float\<close>s. An \<^verbatim>\<open>int\<close> is modelled as \<^typ>\<open>int\<close>. The script is modelled
  twice. In the first model, of the whole run, a \<^verbatim>\<open>float\<close> is an exact \<^typ>\<open>real\<close>:
  rounding, overflow and the infinities of binary64 are not part of it, and it is used
  for the worked example and for statements that relate values by the script's own
  expressions. The one special float the script itself writes, \<^verbatim>\<open>np.nan\<close>, is
  explicit there: a variable that may hold it has type \<^typ>\<open>real option\<close>, with
  \<^term>\<open>None\<close> for not-a-number. The second model, of the lines up to the ROI ratios,
  is over binary64 with its rounding, infinities and not-a-number, and is used for the
  statements that depend on them.
\<close>

datatype py_error = ZeroDivisionError | KeyError | OverflowError

text \<open>Truth value of a float in a condition: \<^verbatim>\<open>nan\<close> is true, only zero is false.\<close>

definition truthy :: "real option \<Rightarrow> bool" where
  "truthy x = (case x of None \<Rightarrow> True | Some r \<Rightarrow> r \<noteq> 0)"

text \<open>Python's \<^verbatim>\<open>/\<close>: a zero divisor raises, for \<^verbatim>\<open>int\<close> and \<^verbatim>\<open>float\<close> alike.\<close>

definition truediv :: "real \<Rightarrow> real \<Rightarrow> py_error + real" where
  "truediv a b = (if b = 0 then Inl ZeroDivisionError else Inr (a / b))"

subsection \<open>Dictionaries\<close>

text \<open>
  A \<^verbatim>\<open>dict\<close> keeps its keys in insertion order, and \<^verbatim>\<open>sum(d.values())\<close> walks
  them in that order, so a dictionary is an association list. \<^verbatim>\<open>d[k] = v\<close>
  overwrites in place or appends; \<^verbatim>\<open>d[k]\<close> raises \<^verbatim>\<open>KeyError\<close> on a missing key.
\<close>

type_synonym ('k, 'v) dict = "('k \<times> 'v) list"

fun setitem :: "('k, 'v) dict \<Rightarrow> 'k \<Rightarrow> 'v \<Rightarrow> ('k, 'v) dict" where
  "setitem [] k v = [(k, v)]"
| "setitem ((k', v') # d) k v = (if k' = k then (k', v) # d else (k', v') # setitem d k v)"

fun getitem :: "('k, 'v) dict \<Rightarrow> 'k \<Rightarrow> py_error + 'v" where
  "getitem [] k = Inl KeyError"
| "getitem ((k', v') # d) k = (if k' = k then Inr v' else getitem d k)"

definition keys :: "('k, 'v) dict \<Rightarrow> 'k list" where
  "keys d = map fst d"

definition values_of :: "('k, 'v) dict \<Rightarrow> 'v list" where
  "values_of d = map snd d"

section \<open>Constants and the application catalog\<close>

definition LICENSE_COST_PER_VESSEL_PER_MONTH :: int where
  "LICENSE_COST_PER_VESSEL_PER_MONTH = 300"

text \<open>
  One entry of \<^verbatim>\<open>applications\<close>: the slider range and its default. The \<^verbatim>\<open>icon\<close>
  entry only decorates widget labels and is left out.
\<close>

record app_info =
  info_min :: real
  info_max :: real
  info_default :: real

definition applications :: "(string, app_info) dict" where
  "applications =
    [(''Hull Maintainance App'', \<lparr>info_min = 0, info_max = 15, info_default = 3\<rparr>),
     (''Voyage Optimization App'', \<lparr>info_min = 0, info_max = 6, info_default = 2\<rparr>),
     (''Emission App'', \<lparr>info_min = 0, info_max = 3, info_default = 3 / 2\<rparr>),
     (''Performance App'', \<lparr>info_min = 0, info_max = 3, info_default = 1\<rparr>),
     (''Propulsion Pro'', \<lparr>info_min = 0, info_max = 4, info_default = 0\<rparr>),
     (''Bunker management'', \<lparr>info_min = 0, info_max = 7, info_default = 0\<rparr>)]"

section \<open>Inputs\<close>

text \<open>
  What the widgets hand to the script in one run: the 3-year checkbox, the four
  sidebar numbers (\<^verbatim>\<open>fleet_size\<close> and \<^verbatim>\<open>operating_days\<close> are integer inputs, the
  other two are floats), and for every application name the state of its checkbox
  and the position of its slider. The script reads a slider only when the
  application's checkbox is ticked.
\<close>

record inputs =
  view_3_years :: bool
  fleet_size :: int
  fuel_price :: real
  daily_consumption :: real
  operating_days :: int
  checkbox :: "string \<Rightarrow> bool"
  slider :: "string \<Rightarrow> real"

section \<open>Collecting the selections\<close>

text \<open>The first loop over \<^verbatim>\<open>applications.items()\<close> fills \<^verbatim>\<open>selected_apps\<close>.\<close>

fun select_loop ::
  "(string, app_info) dict \<Rightarrow> (string \<Rightarrow> bool) \<Rightarrow> (string, bool) dict \<Rightarrow> (string, bool) dict" where
  "select_loop [] cb selected_apps = selected_apps"
| "select_loop ((app_name, info) # rest) cb selected_apps =
     select_loop rest cb (setitem selected_apps app_name (cb app_name))"

text \<open>
  The second loop fills \<^verbatim>\<open>app_savings\<close>: the slider's value for a selected
  application, \<^verbatim>\<open>0.0\<close> otherwise.
\<close>

fun savings_loop ::
  "(string, app_info) dict \<Rightarrow> (string \<Rightarrow> real) \<Rightarrow> (string, bool) dict \<Rightarrow>
   (string, real) dict \<Rightarrow> py_error + (string, real) dict" where
  "savings_loop [] sl selected_apps app_savings = Inr app_savings"
| "savings_loop ((app_name, info) # rest) sl selected_apps app_savings =
     (case getitem selected_apps app_name of
        Inl e \<Rightarrow> Inl e
      | Inr sel \<Rightarrow>
          savings_loop rest sl selected_apps
            (setitem app_savings app_name (if sel then sl app_name else 0)))"

section \<open>Core calculations\<close>

text \<open>
  The loop over \<^verbatim>\<open>applications.keys()\<close>: it carries \<^verbatim>\<open>app_saving_amounts\<close> and
  the running \<^verbatim>\<open>total_savings\<close>.
\<close>

fun amounts_loop ::
  "string list \<Rightarrow> real \<Rightarrow> (string, real) dict \<Rightarrow> (string, real) dict \<times> real \<Rightarrow>
   py_error + ((string, real) dict \<times> real)" where
  "amounts_loop [] baseline_fuel_cost app_savings (app_saving_amounts, total_savings) =
     Inr (app_saving_amounts, total_savings)"
| "amounts_loop (app_name # rest) baseline_fuel_cost app_savings (app_saving_amounts, total_savings) =
     (case getitem app_savings app_name of
        Inl e \<Rightarrow> Inl e
      | Inr saving_percentage \<Rightarrow>
          (let saving_amount = baseline_fuel_cost * saving_percentage / 100
           in amounts_loop rest baseline_fuel_cost app_savings
                (setitem app_saving_amounts app_name saving_amount, total_savings + saving_amount)))"

text \<open>The three guarded ratios. Each division sits behind its own test, so none can raise.\<close>

definition calc_payback_years :: "int \<Rightarrow> real \<Rightarrow> real option" where
  "calc_payback_years license_cost_annual total_savings =
     (if total_savings \<noteq> 0 then Some (of_int license_cost_annual / total_savings) else None)"

definition calc_payback_months :: "real option \<Rightarrow> real option" where
  "calc_payback_months payback_years =
     (if truthy payback_years then map_option (\<lambda>y. y * 12) payback_years else None)"

definition calc_roi_percent :: "real \<Rightarrow> int \<Rightarrow> real option" where
  "calc_roi_percent savings license_cost =
     (if license_cost \<noteq> 0
      then Some (((savings - of_int license_cost) / of_int license_cost) * 100)
      else None)"

text \<open>
  The year-on-year ROI list. Its middle entry divides by \<^verbatim>\<open>license_cost_annual * 2\<close>
  with no test in front of it.
\<close>

definition calc_yearly_roi ::
  "real option \<Rightarrow> real \<Rightarrow> int \<Rightarrow> real option \<Rightarrow> py_error + real option list" where
  "calc_yearly_roi roi_percent total_savings license_cost_annual roi_percent_3yr =
     (case truediv (total_savings * 2 - of_int (license_cost_annual * 2))
                   (of_int (license_cost_annual * 2)) of
        Inl e \<Rightarrow> Inl e
      | Inr q \<Rightarrow> Inr [roi_percent, Some (q * 100), roi_percent_3yr])"

record three_year =
  license_cost_total :: int
  total_savings_3yr :: real
  roi_percent_3yr :: "real option"
  fuel_saved_3yr :: real
  emissions_reduced_3yr :: real
  years :: "int list"
  yearly_savings :: "real list"
  yearly_roi :: "real option list"
  yearly_fuel_saved :: "real list"
  cumulative_savings :: "real list"

record metrics =
  license_cost_annual :: int
  baseline_fuel_cost :: real
  app_saving_amounts :: "(string, real) dict"
  total_savings :: real
  payback_years :: "real option"
  payback_months :: "real option"
  roi_percent :: "real option"
  fuel_saved :: real
  emissions_reduced :: real
  view_3yr :: "three_year option"

text \<open>The block under \<^verbatim>\<open>if view_3_years:\<close>.\<close>

definition three_year_view ::
  "int \<Rightarrow> real \<Rightarrow> real option \<Rightarrow> real \<Rightarrow> real \<Rightarrow> py_error + three_year" where
  "three_year_view lca ts roi fs er =
     (let lct = lca * 3;
          ts3 = ts * 3;
          roi3 = calc_roi_percent ts3 lct;
          fs3 = fs * 3;
          er3 = er * 3
      in case calc_yearly_roi roi ts lca roi3 of
           Inl e \<Rightarrow> Inl e
         | Inr yr \<Rightarrow>
             Inr \<lparr>license_cost_total = lct, total_savings_3yr = ts3, roi_percent_3yr = roi3,
                  fuel_saved_3yr = fs3, emissions_reduced_3yr = er3,
                  years = [1, 2, 3], yearly_savings = replicate 3 ts, yearly_roi = yr,
                  yearly_fuel_saved = replicate 3 fs,
                  cumulative_savings = [ts, ts * 2, ts * 3]\<rparr>)"

text \<open>
  The section \<^verbatim>\<open>Core Calculations\<close>, from \<^verbatim>\<open>license_cost_annual\<close> to the end of
  the 3-year block, given the \<^verbatim>\<open>app_savings\<close> dictionary built above it.
\<close>

definition core_calculations :: "inputs \<Rightarrow> (string, real) dict \<Rightarrow> py_error + metrics" where
  "core_calculations inp app_savings =
     (let lca = fleet_size inp * LICENSE_COST_PER_VESSEL_PER_MONTH * 12;
          bfc = of_int (fleet_size inp) * daily_consumption inp * of_int (operating_days inp)
                  * fuel_price inp
      in case amounts_loop (keys applications) bfc app_savings ([], 0) of
           Inl e \<Rightarrow> Inl e
         | Inr (amounts, ts) \<Rightarrow>
             (let py = calc_payback_years lca ts;
                  pm = calc_payback_months py;
                  roi = calc_roi_percent ts lca
              in case truediv (sum_list (values_of amounts)) (fuel_price inp) of
                   Inl e \<Rightarrow> Inl e
                 | Inr fs \<Rightarrow>
                     (let er = fs * 3.114;
                          m = \<lparr>license_cost_annual = lca, baseline_fuel_cost = bfc,
                               app_saving_amounts = amounts, total_savings = ts,
                               payback_years = py, payback_months = pm, roi_percent = roi,
                               fuel_saved = fs, emissions_reduced = er, view_3yr = None\<rparr>
                      in if view_3_years inp
                         then (case three_year_view lca ts roi fs er of
                                 Inl e \<Rightarrow> Inl e
                               | Inr t \<Rightarrow> Inr (m\<lparr>view_3yr := Some t\<rparr>))
                         else Inr m)))"

text \<open>One run of the script, from the widget values to the numbers that are displayed.\<close>

definition roi_calculator :: "inputs \<Rightarrow> py_error + metrics" where
  "roi_calculator inp =
     (let selected_apps = select_loop applications (checkbox inp) []
      in case savings_loop applications (slider inp) selected_apps [] of
           Inl e \<Rightarrow> Inl e
         | Inr app_savings \<Rightarrow> core_calculations inp app_savings)"

section \<open>Closed forms\<close>

text \<open>
  What the loops compute, written without loops. These definitions are used only to
  state the lemmas that connect them with the script's own definitions above.
\<close>

definition effective :: "inputs \<Rightarrow> string \<Rightarrow> real" where
  "effective inp n = (if checkbox inp n then slider inp n else 0)"

definition lca_of :: "inputs \<Rightarrow> int" where
  "lca_of inp = fleet_size inp * LICENSE_COST_PER_VESSEL_PER_MONTH * 12"

definition bfc_of :: "inputs \<Rightarrow> real" where
  "bfc_of inp = of_int (fleet_size inp) * daily_consumption inp * of_int (operating_days inp)
                  * fuel_price inp"

definition amounts_of :: "inputs \<Rightarrow> (string, real) dict" where
  "amounts_of inp = map (\<lambda>(n, i). (n, bfc_of inp * effective inp n / 100)) applications"

definition total_of :: "inputs \<Rightarrow> real" where
  "total_of inp = sum_list (values_of (amounts_of inp))"

definition annual_of :: "inputs \<Rightarrow> metrics" where
  "annual_of inp =
     \<lparr>license_cost_annual = lca_of inp, baseline_fuel_cost = bfc_of inp,
      app_saving_amounts = amounts_of inp, total_savings = total_of inp,
      payback_years = calc_payback_years (lca_of inp) (total_of inp),
      payback_months = calc_payback_months (calc_payback_years (lca_of inp) (total_of inp)),
      roi_percent = calc_roi_percent (total_of inp) (lca_of inp),
      fuel_saved = total_of inp / fuel_price inp,
      emissions_reduced = total_of inp / fuel_price inp * 3.114,
      view_3yr = None\<rparr>"

definition three_of :: "inputs \<Rightarrow> three_year" where
  "three_of inp =
     \<lparr>license_cost_total = lca_of inp * 3, total_savings_3yr = total_of inp * 3,
      roi_percent_3yr = calc_roi_percent (total_of inp * 3) (lca_of inp * 3),
      fuel_saved_3yr = total_of inp / fuel_price inp * 3,
      emissions_reduced_3yr = total_of inp / fuel_price inp * 3.114 * 3,
      years = [1, 2, 3], yearly_savings = replicate 3 (total_of inp),
      yearly_roi = [calc_roi_percent (total_of inp) (lca_of inp),
                    Some ((total_of inp * 2 - of_int (lca_of inp * 2)) / of_int (lca_of inp * 2) * 100),
                    calc_roi_percent (total_of inp * 3) (lca_of inp * 3)],
      yearly_fuel_saved = replicate 3 (total_of inp / fuel_price inp),
      cumulative_savings = [total_of inp, total_of inp * 2, total_of inp * 3]\<rparr>"

definition result_of :: "inputs \<Rightarrow> metrics" where
  "result_of inp =
     (if view_3_years inp then (annual_of inp)\<lparr>view_3yr := Some (three_of inp)\<rparr>
      else annual_of inp)"

text \<open>The scenario of the specification's worked example; the 3-year flag and the
  positions of the sliders that are not shown are left open.\<close>

definition scenario :: "bool \<Rightarrow> (string \<Rightarrow> real) \<Rightarrow> inputs" where
  "scenario v others =
     \<lparr>view_3_years = v, fleet_size = 10, fuel_price = 550, daily_consumption = 50,
      operating_days = 330, checkbox = (\<lambda>n. n = ''Hull Maintainance App''),
      slider = others(''Hull Maintainance App'' := 3)\<rparr>"

section \<open>Binary64 arithmetic\<close>

text \<open>
  The exact model above cannot say what the script does when a product overflows. For
  the claims that depend on this, the lines from the slider loop to \<^verbatim>\<open>roi_percent\<close>
  (185--213) are modelled a second time, over binary64 values: a finite number, one of
  the two infinities, or not-a-number. The two zeros of binary64 are one value here:
  the script never looks at the sign of a zero (a division by either raises).
\<close>

datatype pyfloat = Fin real | PInf | NInf | NaN

text \<open>
  Rounding to nearest, ties to even: first to an integer, then to binary64. A number
  is scaled by the power of two that puts its 53 significant bits in front of the
  point (the exponent is held at -1022 for subnormal numbers), rounded to an integer
  and scaled back; a result of magnitude \<open>2 ^ 1024\<close> or more is an infinity.
\<close>

definition rne :: "real \<Rightarrow> int" where
  "rne y = (let f = \<lfloor>y\<rfloor> in
             if y - of_int f < 1 / 2 then f
             else if 1 / 2 < y - of_int f then f + 1
             else if even f then f else f + 1)"

definition ulp_exp :: "real \<Rightarrow> int" where
  "ulp_exp x = max \<lfloor>log 2 \<bar>x\<bar>\<rfloor> (- 1022) - 52"

definition round64 :: "real \<Rightarrow> pyfloat" where
  "round64 x =
     (if x = 0 then Fin 0
      else let u = 2 powr of_int (ulp_exp x);
               y = of_int (rne (x / u)) * u
           in if 2 ^ 1024 \<le> \<bar>y\<bar> then (if 0 < x then PInf else NInf) else Fin y)"

text \<open>
  The finite binary64 numbers: 53 bits of significand, exponents from -1074 to 971.
\<close>

definition representable :: "real \<Rightarrow> bool" where
  "representable x \<longleftrightarrow>
     (\<exists>m e. \<bar>m\<bar> < 2 ^ 53 \<and> - 1074 \<le> e \<and> e \<le> 971 \<and> x = of_int m * 2 powr of_int e)"

text \<open>
  Python's \<^verbatim>\<open>+\<close>, \<^verbatim>\<open>-\<close> and \<^verbatim>\<open>*\<close> on floats follow IEEE 754 and never raise:
  an overflow gives an infinity, \<^verbatim>\<open>inf - inf\<close> and \<^verbatim>\<open>inf * 0.0\<close> give not-a-number.
\<close>

fun fadd :: "pyfloat \<Rightarrow> pyfloat \<Rightarrow> pyfloat" where
  "fadd (Fin x) (Fin y) = round64 (x + y)"
| "fadd NaN b = NaN"
| "fadd a NaN = NaN"
| "fadd PInf NInf = NaN"
| "fadd NInf PInf = NaN"
| "fadd PInf b = PInf"
| "fadd a PInf = PInf"
| "fadd NInf b = NInf"
| "fadd a NInf = NInf"

fun fsub :: "pyfloat \<Rightarrow> pyfloat \<Rightarrow> pyfloat" where
  "fsub (Fin x) (Fin y) = round64 (x - y)"
| "fsub NaN b = NaN"
| "fsub a NaN = NaN"
| "fsub PInf PInf = NaN"
| "fsub NInf NInf = NaN"
| "fsub PInf b = PInf"
| "fsub a PInf = NInf"
| "fsub NInf b = NInf"
| "fsub a NInf = PInf"

definition signed_inf :: "bool \<Rightarrow> pyfloat" where
  "signed_inf positive = (if positive then PInf else NInf)"

fun fmul :: "pyfloat \<Rightarrow> pyfloat \<Rightarrow> pyfloat" where
  "fmul (Fin x) (Fin y) = round64 (x * y)"
| "fmul NaN b = NaN"
| "fmul a NaN = NaN"
| "fmul PInf (Fin y) = (if y = 0 then NaN else signed_inf (0 < y))"
| "fmul NInf (Fin y) = (if y = 0 then NaN else signed_inf (y < 0))"
| "fmul (Fin x) PInf = (if x = 0 then NaN else signed_inf (0 < x))"
| "fmul (Fin x) NInf = (if x = 0 then NaN else signed_inf (x < 0))"
| "fmul PInf PInf = PInf"
| "fmul NInf NInf = PInf"
| "fmul PInf NInf = NInf"
| "fmul NInf PInf = NInf"

text \<open>
  Python's \<^verbatim>\<open>/\<close> on floats raises \<^verbatim>\<open>ZeroDivisionError\<close> for a zero divisor, whatever
  the dividend; otherwise it follows IEEE 754.
\<close>

fun truediv64 :: "pyfloat \<Rightarrow> pyfloat \<Rightarrow> py_error + pyfloat" where
  "truediv64 a (Fin y) =
     (if y = 0 then Inl ZeroDivisionError
      else Inr (case a of
                  Fin x \<Rightarrow> round64 (x / y)
                | PInf \<Rightarrow> signed_inf (0 < y)
                | NInf \<Rightarrow> signed_inf (y < 0)
                | NaN \<Rightarrow> NaN))"
| "truediv64 NaN b = Inr NaN"
| "truediv64 a NaN = Inr NaN"
| "truediv64 (Fin x) b = Inr (Fin 0)"
| "truediv64 a b = Inr NaN"

text \<open>
  A float in a condition is false only when it is zero: infinities and not-a-number
  are true.
\<close>

definition truthy64 :: "pyfloat \<Rightarrow> bool" where
  "truthy64 x = (x \<noteq> Fin 0)"

text \<open>
  An \<^verbatim>\<open>int\<close> operand of a float operation is converted first, with the same rounding;
  an \<^verbatim>\<open>int\<close> too large for a float raises \<^verbatim>\<open>OverflowError\<close>. The literals
  \<^verbatim>\<open>100\<close> and \<^verbatim>\<open>12\<close> convert exactly and are written as floats below.
\<close>

definition float_of_int :: "int \<Rightarrow> py_error + pyfloat" where
  "float_of_int i =
     (case round64 (of_int i) of Fin r \<Rightarrow> Inr (Fin r) | other \<Rightarrow> Inl OverflowError)"

section \<open>Savings and ratios over binary64\<close>

text \<open>
  The slider loop (lines 185--194) and the loop over \<^verbatim>\<open>applications.keys()\<close>
  (lines 204--208). \<^verbatim>\<open>total_savings\<close> starts as the \<^verbatim>\<open>int\<close> 0, which the first
  \<^verbatim>\<open>+=\<close> converts to the float zero.
\<close>

fun savings_loop64 ::
  "(string, app_info) dict \<Rightarrow> (string \<Rightarrow> pyfloat) \<Rightarrow> (string, bool) dict \<Rightarrow>
   (string, pyfloat) dict \<Rightarrow> py_error + (string, pyfloat) dict" where
  "savings_loop64 [] sl selected_apps app_savings = Inr app_savings"
| "savings_loop64 ((app_name, info) # rest) sl selected_apps app_savings =
     (case getitem selected_apps app_name of
        Inl e \<Rightarrow> Inl e
      | Inr sel \<Rightarrow>
          savings_loop64 rest sl selected_apps
            (setitem app_savings app_name (if sel then sl app_name else Fin 0)))"

fun amounts_loop64 ::
  "string list \<Rightarrow> pyfloat \<Rightarrow> (string, pyfloat) dict \<Rightarrow> (string, pyfloat) dict \<times> pyfloat \<Rightarrow>
   py_error + ((string, pyfloat) dict \<times> pyfloat)" where
  "amounts_loop64 [] baseline app_savings (amounts, savings) = Inr (amounts, savings)"
| "amounts_loop64 (app_name # rest) baseline app_savings (amounts, savings) =
     (case getitem app_savings app_name of
        Inl e \<Rightarrow> Inl e
      | Inr saving_percentage \<Rightarrow>
          (case truediv64 (fmul baseline saving_percentage) (Fin 100) of
             Inl e \<Rightarrow> Inl e
           | Inr saving_amount \<Rightarrow>
               amounts_loop64 rest baseline app_savings
                 (setitem amounts app_name saving_amount, fadd savings saving_amount)))"

text \<open>
  Lines 211--213. In \<^verbatim>\<open>license_cost_annual / total_savings\<close> and in
  \<^verbatim>\<open>total_savings - license_cost_annual\<close> the \<^verbatim>\<open>int\<close> is converted to a float.
\<close>

definition payback_years64 :: "int \<Rightarrow> pyfloat \<Rightarrow> py_error + pyfloat" where
  "payback_years64 license_cost savings =
     (if truthy64 savings
      then (case float_of_int license_cost of
              Inl e \<Rightarrow> Inl e
            | Inr l \<Rightarrow> truediv64 l savings)
      else Inr NaN)"

definition payback_months64 :: "pyfloat \<Rightarrow> pyfloat" where
  "payback_months64 pyears =
     (if truthy64 pyears then fmul pyears (Fin 12) else NaN)"

definition roi_percent64 :: "pyfloat \<Rightarrow> int \<Rightarrow> py_error + pyfloat" where
  "roi_percent64 savings license_cost =
     (if license_cost \<noteq> 0
      then (case float_of_int license_cost of
              Inl e \<Rightarrow> Inl e
            | Inr l \<Rightarrow>
                (case truediv64 (fsub savings l) l of
                   Inl e \<Rightarrow> Inl e
                 | Inr q \<Rightarrow> Inr (fmul q (Fin 100))))
      else Inr NaN)"

text \<open>
  The variables of lines 197--213 at the end of line 213, and the run that computes
  them from the widget values.
\<close>

record ratios64 =
  license_cost64 :: int
  baseline64 :: pyfloat
  amounts64 :: "(string, pyfloat) dict"
  savings64 :: pyfloat
  years64 :: pyfloat
  months64 :: pyfloat
  roi64 :: pyfloat

definition core_ratios64 ::
  "int \<Rightarrow> pyfloat \<Rightarrow> pyfloat \<Rightarrow> int \<Rightarrow> (string, pyfloat) dict \<Rightarrow> py_error + ratios64" where
  "core_ratios64 fleet price daily days app_savings =
     (let license_cost = fleet * LICENSE_COST_PER_VESSEL_PER_MONTH * 12
      in case float_of_int fleet of
           Inl e \<Rightarrow> Inl e
         | Inr fl \<Rightarrow>
        (case float_of_int days of
           Inl e \<Rightarrow> Inl e
         | Inr dy \<Rightarrow>
        (let baseline = fmul (fmul (fmul fl daily) dy) price
         in case amounts_loop64 (keys applications) baseline app_savings ([], Fin 0) of
              Inl e \<Rightarrow> Inl e
            | Inr (amounts, savings) \<Rightarrow>
           (case payback_years64 license_cost savings of
              Inl e \<Rightarrow> Inl e
            | Inr pyears \<Rightarrow>
           (case roi_percent64 savings license_cost of
              Inl e \<Rightarrow> Inl e
            | Inr roi \<Rightarrow>
                Inr \<lparr>license_cost64 = license_cost, baseline64 = baseline,
                     amounts64 = amounts, savings64 = savings,
                     years64 = pyears, months64 = payback_months64 pyears,
                     roi64 = roi\<rparr>)))))"

definition ratios64 ::
  "int \<Rightarrow> pyfloat \<Rightarrow> pyfloat \<Rightarrow> int \<Rightarrow> (string \<Rightarrow> bool) \<Rightarrow> (string \<Rightarrow> pyfloat) \<Rightarrow>
   py_error + ratios64" where
  "ratios64 fleet price daily days cb sl =
     (let selected_apps = select_loop applications cb []
      in case savings_loop64 applications sl selected_apps [] of
           Inl e \<Rightarrow> Inl e
         | Inr app_savings \<Rightarrow> core_ratios64 fleet price daily days app_savings)"

text \<open>
  Closed forms of the two loops, used to state the lemmas about them.
\<close>

definition effective64 :: "(string \<Rightarrow> bool) \<Rightarrow> (string \<Rightarrow> pyfloat) \<Rightarrow> string \<Rightarrow> pyfloat" where
  "effective64 cb sl n = (if cb n then sl n else Fin 0)"

definition div100 :: "pyfloat \<Rightarrow> pyfloat" where
  "div100 a = (case a of Fin x \<Rightarrow> round64 (x / 100) | other \<Rightarrow> other)"

definition amount64 :: "pyfloat \<Rightarrow> pyfloat \<Rightarrow> pyfloat" where
  "amount64 b p = div100 (fmul b p)"

definition amounts_of64 ::
  "pyfloat \<Rightarrow> (string \<Rightarrow> bool) \<Rightarrow> (string \<Rightarrow> pyfloat) \<Rightarrow> (string, pyfloat) dict" where
  "amounts_of64 b cb sl = map (\<lambda>(n, i). (n, amount64 b (effective64 cb sl n))) applications"


section \<open>The loops\<close>

lemma setitem_fresh: "k \<notin> set (keys d) \<Longrightarrow> setitem d k v = d @ [(k, v)]"
  by (induction d) (auto simp: keys_def)

lemma getitem_map:
  "k \<in> set (keys d) \<Longrightarrow> getitem (map (\<lambda>(n, i). (n, f n)) d) k = Inr (f k)"
  by (induction d) (force simp: keys_def)+

lemma getitem_append_fresh:
  "k \<notin> set (keys d) \<Longrightarrow> getitem (d @ e) k = getitem e k"
  by (induction d) (auto simp: keys_def)

lemma select_loop_eq:
  "distinct (keys apps) \<Longrightarrow> set (keys apps) \<inter> set (keys acc) = {} \<Longrightarrow>
   select_loop apps cb acc = acc @ map (\<lambda>(n, i). (n, cb n)) apps"
proof (induction apps arbitrary: acc)
  case Nil
  then show ?case by simp
next
  case (Cons a apps)
  obtain n i where a: "a = (n, i)" by (cases a)
  from Cons.prems have fresh: "n \<notin> set (keys acc)" and d: "distinct (keys apps)"
    and nn: "n \<notin> set (keys apps)" and disj: "set (keys apps) \<inter> set (keys acc) = {}"
    by (auto simp: a keys_def)
  have "set (keys apps) \<inter> set (keys (acc @ [(n, cb n)])) = {}"
    using disj nn by (auto simp: keys_def)
  with Cons.IH [OF d] show ?case
    by (simp add: a setitem_fresh [OF fresh])
qed

lemma savings_loop_eq:
  "distinct (keys apps) \<Longrightarrow> set (keys apps) \<inter> set (keys acc) = {} \<Longrightarrow>
   \<forall>n \<in> set (keys apps). getitem sel n = Inr (cb n) \<Longrightarrow>
   savings_loop apps sl sel acc
     = Inr (acc @ map (\<lambda>(n, i). (n, if cb n then sl n else 0)) apps)"
proof (induction apps arbitrary: acc)
  case Nil
  then show ?case by simp
next
  case (Cons a apps)
  obtain n i where a: "a = (n, i)" by (cases a)
  from Cons.prems have fresh: "n \<notin> set (keys acc)" and d: "distinct (keys apps)"
    and nn: "n \<notin> set (keys apps)" and disj: "set (keys apps) \<inter> set (keys acc) = {}"
    and g: "getitem sel n = Inr (cb n)"
    and gs: "\<forall>n \<in> set (keys apps). getitem sel n = Inr (cb n)"
    by (auto simp: a keys_def)
  have "set (keys apps) \<inter> set (keys (acc @ [(n, if cb n then sl n else 0)])) = {}"
    using disj nn by (auto simp: keys_def)
  from Cons.IH [OF d this gs] show ?case
    by (simp add: a g setitem_fresh [OF fresh])
qed

lemma amounts_loop_eq:
  "distinct ks \<Longrightarrow> set ks \<inter> set (keys acc) = {} \<Longrightarrow>
   \<forall>n \<in> set ks. getitem sav n = Inr (f n) \<Longrightarrow>
   amounts_loop ks b sav (acc, t)
     = Inr (acc @ map (\<lambda>n. (n, b * f n / 100)) ks,
            t + sum_list (map (\<lambda>n. b * f n / 100) ks))"
proof (induction ks arbitrary: acc t)
  case Nil
  then show ?case by simp
next
  case (Cons n ks)
  from Cons.prems have fresh: "n \<notin> set (keys acc)" and d: "distinct ks"
    and nn: "n \<notin> set ks" and disj: "set ks \<inter> set (keys acc) = {}"
    and g: "getitem sav n = Inr (f n)"
    and gs: "\<forall>n \<in> set ks. getitem sav n = Inr (f n)"
    by auto
  have "set ks \<inter> set (keys (acc @ [(n, b * f n / 100)])) = {}"
    using disj nn by (auto simp: keys_def)
  from Cons.IH [OF d this gs] show ?case
    by (simp add: g setitem_fresh [OF fresh] Let_def add.assoc)
qed

lemma distinct_applications: "distinct (keys applications)"
  by (simp add: applications_def keys_def)

lemma collect_eq:
  "savings_loop applications (slider inp) (select_loop applications (checkbox inp) []) []
     = Inr (map (\<lambda>(n, i). (n, effective inp n)) applications)"
proof -
  have sel: "select_loop applications (checkbox inp) [] = map (\<lambda>(n, i). (n, checkbox inp n)) applications"
    using select_loop_eq [OF distinct_applications, of "[]"] by (simp add: keys_def)
  have "\<forall>n \<in> set (keys applications).
          getitem (map (\<lambda>(n, i). (n, checkbox inp n)) applications) n = Inr (checkbox inp n)"
    by (simp add: getitem_map)
  from savings_loop_eq [OF distinct_applications _ this, of "[]" "slider inp"]
  show ?thesis by (simp add: sel keys_def effective_def)
qed

lemma core_amounts:
  "amounts_loop (keys applications) (bfc_of inp)
     (map (\<lambda>(n, i). (n, effective inp n)) applications) ([], 0)
   = Inr (amounts_of inp, total_of inp)"
proof -
  have "\<forall>n \<in> set (keys applications).
          getitem (map (\<lambda>(n, i). (n, effective inp n)) applications) n = Inr (effective inp n)"
    by (simp add: getitem_map)
  from amounts_loop_eq [OF distinct_applications _ this, of "[]" "bfc_of inp" 0]
  show ?thesis
    by (simp add: keys_def values_of_def amounts_of_def total_of_def comp_def case_prod_beta)
qed

lemma core_calculations_eq:
  "core_calculations inp (map (\<lambda>(n, i). (n, effective inp n)) applications) =
     (if fuel_price inp = 0 then Inl ZeroDivisionError
      else if view_3_years inp
      then (case three_year_view (lca_of inp) (total_of inp)
                   (calc_roi_percent (total_of inp) (lca_of inp))
                   (total_of inp / fuel_price inp) (total_of inp / fuel_price inp * 3.114) of
              Inl e \<Rightarrow> Inl e
            | Inr t \<Rightarrow> Inr ((annual_of inp)\<lparr>view_3yr := Some t\<rparr>))
      else Inr (annual_of inp))"
proof -
  define c :: real where "c = 3.114"
  have tot: "sum_list (values_of (amounts_of inp)) = total_of inp"
    by (simp add: total_of_def)
  show ?thesis
    unfolding core_calculations_def annual_of_def
    unfolding Let_def lca_of_def [symmetric] bfc_of_def [symmetric] c_def [symmetric]
    by (simp add: core_amounts tot truediv_def)
qed

lemma roi_calculator_eq:
  "roi_calculator inp =
     (if fuel_price inp = 0 then Inl ZeroDivisionError
      else if view_3_years inp
      then (case three_year_view (lca_of inp) (total_of inp)
                   (calc_roi_percent (total_of inp) (lca_of inp))
                   (total_of inp / fuel_price inp) (total_of inp / fuel_price inp * 3.114) of
              Inl e \<Rightarrow> Inl e
            | Inr t \<Rightarrow> Inr ((annual_of inp)\<lparr>view_3yr := Some t\<rparr>))
      else Inr (annual_of inp))"
  unfolding roi_calculator_def Let_def collect_eq sum.case
  by (rule core_calculations_eq)

lemma three_year_view_eq:
  "three_year_view lca ts roi fs er =
     (if lca = 0 then Inl ZeroDivisionError
      else Inr \<lparr>license_cost_total = lca * 3, total_savings_3yr = ts * 3,
                roi_percent_3yr = calc_roi_percent (ts * 3) (lca * 3),
                fuel_saved_3yr = fs * 3, emissions_reduced_3yr = er * 3,
                years = [1, 2, 3], yearly_savings = replicate 3 ts,
                yearly_roi = [roi,
                              Some ((ts * 2 - of_int (lca * 2)) / of_int (lca * 2) * 100),
                              calc_roi_percent (ts * 3) (lca * 3)],
                yearly_fuel_saved = replicate 3 fs,
                cumulative_savings = [ts, ts * 2, ts * 3]\<rparr>)"
  by (simp add: three_year_view_def calc_yearly_roi_def truediv_def Let_def)

section \<open>When a run finishes, and with what\<close>

lemma lca_of_eq_0: "lca_of inp = 0 \<longleftrightarrow> fleet_size inp = 0"
  by (simp add: lca_of_def LICENSE_COST_PER_VESSEL_PER_MONTH_def)

lemma roi_calculator_cases:
  "roi_calculator inp =
     (if fuel_price inp = 0 \<or> (view_3_years inp \<and> fleet_size inp = 0)
      then Inl ZeroDivisionError else Inr (result_of inp))"
  unfolding roi_calculator_eq three_year_view_eq result_of_def three_of_def
  by (simp add: lca_of_eq_0)

lemma roi_calculator_returns_iff:
  "(\<exists>m. roi_calculator inp = Inr m) \<longleftrightarrow>
     fuel_price inp \<noteq> 0 \<and> (view_3_years inp \<longrightarrow> fleet_size inp \<noteq> 0)"
  by (auto simp: roi_calculator_cases)

lemma roi_calculator_InrD:
  "roi_calculator inp = Inr m \<Longrightarrow>
     m = result_of inp \<and> fuel_price inp \<noteq> 0 \<and> (view_3_years inp \<longrightarrow> fleet_size inp \<noteq> 0)"
  by (auto simp: roi_calculator_cases split: if_splits)

lemma result_of_fields:
  "license_cost_annual (result_of inp) = lca_of inp"
  "baseline_fuel_cost (result_of inp) = bfc_of inp"
  "app_saving_amounts (result_of inp) = amounts_of inp"
  "total_savings (result_of inp) = total_of inp"
  "payback_years (result_of inp) = calc_payback_years (lca_of inp) (total_of inp)"
  "payback_months (result_of inp) = calc_payback_months (calc_payback_years (lca_of inp) (total_of inp))"
  "roi_percent (result_of inp) = calc_roi_percent (total_of inp) (lca_of inp)"
  "fuel_saved (result_of inp) = total_of inp / fuel_price inp"
  "emissions_reduced (result_of inp) = total_of inp / fuel_price inp * 3.114"
  "view_3yr (result_of inp) = (if view_3_years inp then Some (three_of inp) else None)"
  by (simp_all add: result_of_def annual_of_def)

lemma total_of_sum:
  "total_of inp = sum_list (map (\<lambda>n. bfc_of inp * effective inp n / 100) (keys applications))"
  by (simp add: total_of_def amounts_of_def values_of_def keys_def comp_def case_prod_beta)

lemma total_of_fleet0: "fleet_size inp = 0 \<Longrightarrow> total_of inp = 0"
  by (simp add: total_of_sum bfc_of_def)

lemma getitem_amounts:
  "n \<in> set (keys applications) \<Longrightarrow>
     getitem (amounts_of inp) n = Inr (bfc_of inp * effective inp n / 100)"
  unfolding amounts_of_def by (rule getitem_map)

section \<open>The worked example\<close>

lemma amounts_scenario:
  "amounts_of (scenario v others) =
     [(''Hull Maintainance App'', 2722500), (''Voyage Optimization App'', 0),
      (''Emission App'', 0), (''Performance App'', 0), (''Propulsion Pro'', 0),
      (''Bunker management'', 0)]"
  by (simp add: amounts_of_def applications_def effective_def scenario_def bfc_of_def)

lemma lca_scenario: "lca_of (scenario v others) = 36000"
  by (simp add: lca_of_def scenario_def LICENSE_COST_PER_VESSEL_PER_MONTH_def)

lemma total_scenario: "total_of (scenario v others) = 2722500"
  by (simp add: total_of_def amounts_scenario values_of_def)

lemma bfc_scenario: "bfc_of (scenario v others) = 90750000"
  by (simp add: bfc_of_def scenario_def)

lemma scenario_fields:
  "fuel_price (scenario v others) = 550" "view_3_years (scenario v others) = v"
  "fleet_size (scenario v others) = 10"
  by (simp_all add: scenario_def)

text \<open>
  Claim C1. With a fleet of 10 vessels, fuel at 550 per ton, 50 tons a day and 330
  operating days, and only the Hull Maintainance App ticked with its slider at 3.0, the
  run finishes (for either setting of the 3-year checkbox and wherever the hidden sliders
  stand) with a license cost of 36000, a baseline fuel cost of 90750000, savings of
  2722500 that all belong to that one application, a payback of 36000/2722500*12 months,
  an ROI of (2722500-36000)/36000*100 percent, 4950 tons of fuel saved and
  4950*3.114 = 15414.3 tons of CO2 avoided.
\<close>

theorem worked_example:
  "\<exists>m. roi_calculator (scenario v others) = Inr m \<and>
       license_cost_annual m = 36000 \<and>
       baseline_fuel_cost m = 90750000 \<and>
       total_savings m = 2722500 \<and>
       app_saving_amounts m =
         [(''Hull Maintainance App'', 2722500), (''Voyage Optimization App'', 0),
          (''Emission App'', 0), (''Performance App'', 0), (''Propulsion Pro'', 0),
          (''Bunker management'', 0)] \<and>
       payback_months m = Some (36000 / 2722500 * 12) \<and>
       roi_percent m = Some ((2722500 - 36000) / 36000 * 100) \<and>
       fuel_saved m = 4950 \<and>
       emissions_reduced m = 4950 * 3.114 \<and>
       emissions_reduced m = 15414.3"
  by (simp add: roi_calculator_eq three_year_view_eq annual_of_def lca_scenario total_scenario
        bfc_scenario scenario_fields amounts_scenario calc_payback_years_def
        calc_payback_months_def calc_roi_percent_def truthy_def)

section \<open>Runs of the scenario\<close>

lemma scenario_runs:
  "roi_calculator (scenario v others) = Inr (result_of (scenario v others))"
  by (simp add: roi_calculator_cases scenario_fields)

section \<open>Three-year totals\<close>

lemma roi_calculator_result:
  "roi_calculator inp = Inr m \<Longrightarrow> m = result_of inp"
  by (rule roi_calculator_InrD [THEN conjunct1])

text \<open>
  Claim C6. Whenever a run with the 3-year view ticked returns, the 3-year block is
  present and its license cost, total savings, fuel saved and emissions reduced are
  three times the corresponding annual values of the same run (lines 221--225).
\<close>

theorem three_year_totals:
  assumes "roi_calculator inp = Inr m" and "view_3_years inp"
  shows "\<exists>t. view_3yr m = Some t \<and>
             license_cost_total t = 3 * license_cost_annual m \<and>
             total_savings_3yr t = 3 * total_savings m \<and>
             fuel_saved_3yr t = 3 * fuel_saved m \<and>
             emissions_reduced_3yr t = 3 * emissions_reduced m"
proof -
  from assms(1) have eq: "m = result_of inp" by (rule roi_calculator_result)
  show ?thesis unfolding eq
  proof (intro exI [of _ "three_of inp"] conjI)
    show "view_3yr (result_of inp) = Some (three_of inp)"
      using assms(2) by (simp add: result_of_fields)
    show "license_cost_total (three_of inp) = 3 * license_cost_annual (result_of inp)"
      by (simp add: result_of_fields three_of_def)
    show "total_savings_3yr (three_of inp) = 3 * total_savings (result_of inp)"
      by (simp add: result_of_fields three_of_def)
    show "fuel_saved_3yr (three_of inp) = 3 * fuel_saved (result_of inp)"
      by (simp add: result_of_fields three_of_def)
    show "emissions_reduced_3yr (three_of inp) = 3 * emissions_reduced (result_of inp)"
      by (simp add: result_of_fields three_of_def)
  qed
qed

theorem three_year_totals_witness:
  "roi_calculator (scenario True (\<lambda>n. 0)) = Inr (result_of (scenario True (\<lambda>n. 0))) \<and>
   view_3_years (scenario True (\<lambda>n. 0)) \<and>
   license_cost_annual (result_of (scenario True (\<lambda>n. 0))) = 36000 \<and>
   total_savings (result_of (scenario True (\<lambda>n. 0))) = 2722500 \<and>
   (\<exists>t. view_3yr (result_of (scenario True (\<lambda>n. 0))) = Some t \<and>
        license_cost_total t = 3 * license_cost_annual (result_of (scenario True (\<lambda>n. 0))) \<and>
        total_savings_3yr t = 3 * total_savings (result_of (scenario True (\<lambda>n. 0))) \<and>
        fuel_saved_3yr t = 3 * fuel_saved (result_of (scenario True (\<lambda>n. 0))) \<and>
        emissions_reduced_3yr t = 3 * emissions_reduced (result_of (scenario True (\<lambda>n. 0))))"
proof -
  have v: "view_3_years (scenario True (\<lambda>n. 0))" by (simp add: scenario_fields)
  have l: "license_cost_annual (result_of (scenario True (\<lambda>n. 0))) = 36000"
    unfolding result_of_fields by (rule lca_scenario)
  have t: "total_savings (result_of (scenario True (\<lambda>n. 0))) = 2722500"
    unfolding result_of_fields by (rule total_scenario)
  show ?thesis
    by (intro conjI scenario_runs v l t three_year_totals [OF scenario_runs v])
qed

section \<open>Selections and sliders\<close>

lemma hull_in_catalog: "''Hull Maintainance App'' \<in> set (keys applications)"
  by (simp add: applications_def keys_def)

lemma amounts_of_cong:
  assumes "bfc_of a = bfc_of b"
    and "\<And>n. n \<in> set (keys applications) \<Longrightarrow> effective a n = effective b n"
  shows "amounts_of a = amounts_of b"
  unfolding amounts_of_def assms(1)
proof (rule map_cong [OF refl])
  fix x assume x: "x \<in> set applications"
  have k: "fst x \<in> set (keys applications)"
    unfolding keys_def set_map using x by (rule imageI)
  show "(case x of (n, i) \<Rightarrow> (n, bfc_of b * effective a n / 100))
          = (case x of (n, i) \<Rightarrow> (n, bfc_of b * effective b n / 100))"
    by (simp add: case_prod_beta assms(2) [OF k])
qed

lemma result_of_cong:
  assumes "view_3_years a = view_3_years b" and "fleet_size a = fleet_size b"
    and "fuel_price a = fuel_price b" and "daily_consumption a = daily_consumption b"
    and "operating_days a = operating_days b"
    and "\<And>n. n \<in> set (keys applications) \<Longrightarrow> effective a n = effective b n"
  shows "result_of a = result_of b"
proof -
  have l: "lca_of a = lca_of b" by (simp add: lca_of_def assms(2))
  have b: "bfc_of a = bfc_of b" by (simp add: bfc_of_def assms(2-5))
  have am: "amounts_of a = amounts_of b" using b assms(6) by (rule amounts_of_cong)
  have t: "total_of a = total_of b" by (simp add: total_of_def am)
  have an: "annual_of a = annual_of b" by (simp add: annual_of_def l b am t assms(3))
  have th: "three_of a = three_of b" by (simp add: three_of_def l t assms(3))
  show ?thesis by (simp add: result_of_def an th assms(1))
qed

lemma roi_calculator_cong:
  assumes "view_3_years a = view_3_years b" and "fleet_size a = fleet_size b"
    and "fuel_price a = fuel_price b" and "daily_consumption a = daily_consumption b"
    and "operating_days a = operating_days b"
    and "\<And>n. n \<in> set (keys applications) \<Longrightarrow> effective a n = effective b n"
  shows "roi_calculator a = roi_calculator b"
proof -
  have r: "result_of a = result_of b" using assms by (rule result_of_cong)
  show ?thesis unfolding roi_calculator_cases r assms(1-3) ..
qed

text \<open>
  Claim C9. Two runs whose fleet parameters and 3-year flag agree, whose checkboxes
  agree on the catalog, and whose sliders agree on the ticked applications, end in
  the same way: with the same error, or with results equal in every field. The result
  is a function of these inputs alone.
\<close>

theorem same_inputs_same_result:
  assumes "view_3_years a = view_3_years b" and "fleet_size a = fleet_size b"
    and "fuel_price a = fuel_price b" and "daily_consumption a = daily_consumption b"
    and "operating_days a = operating_days b"
    and "\<forall>n \<in> set (keys applications).
           checkbox a n = checkbox b n \<and> (checkbox a n \<longrightarrow> slider a n = slider b n)"
  shows "roi_calculator a = roi_calculator b"
proof -
  have e: "effective a n = effective b n" if "n \<in> set (keys applications)" for n
  proof -
    from assms(6) that
    have "checkbox a n = checkbox b n \<and> (checkbox a n \<longrightarrow> slider a n = slider b n)"
      by (rule bspec)
    then show ?thesis by (simp add: effective_def)
  qed
  from assms(1-5) e show ?thesis by (rule roi_calculator_cong)
qed

theorem same_inputs_same_result_witness:
  "slider (scenario True (\<lambda>n. 0)) ''Emission App''
     \<noteq> slider (scenario True (\<lambda>n. 7)) ''Emission App'' \<and>
   roi_calculator (scenario True (\<lambda>n. 0)) = roi_calculator (scenario True (\<lambda>n. 7)) \<and>
   roi_calculator (scenario True (\<lambda>n. 7)) = Inr (result_of (scenario True (\<lambda>n. 0)))"
proof -
  define a where "a = scenario True (\<lambda>n. 0)"
  define b where "b = scenario True (\<lambda>n. 7)"
  have h1: "view_3_years a = view_3_years b" by (simp add: a_def b_def scenario_def)
  have h2: "fleet_size a = fleet_size b" by (simp add: a_def b_def scenario_def)
  have h3: "fuel_price a = fuel_price b" by (simp add: a_def b_def scenario_def)
  have h4: "daily_consumption a = daily_consumption b" by (simp add: a_def b_def scenario_def)
  have h5: "operating_days a = operating_days b" by (simp add: a_def b_def scenario_def)
  have c: "checkbox a n = checkbox b n" for n by (simp add: a_def b_def scenario_def)
  have s: "checkbox a n \<longrightarrow> slider a n = slider b n" for n
    by (simp add: a_def b_def scenario_def)
  have h6: "\<forall>n \<in> set (keys applications).
           checkbox a n = checkbox b n \<and> (checkbox a n \<longrightarrow> slider a n = slider b n)"
    by (intro ballI conjI c s)
  note e = same_inputs_same_result [OF h1 h2 h3 h4 h5 h6]
  have ne: "slider a ''Emission App'' \<noteq> slider b ''Emission App''"
    by (simp add: a_def b_def scenario_def)
  have "roi_calculator a = Inr (result_of a)" unfolding a_def by (rule scenario_runs)
  with e [symmetric] have r: "roi_calculator b = Inr (result_of a)" by (rule trans)
  from ne e r have "slider a ''Emission App'' \<noteq> slider b ''Emission App'' \<and>
    roi_calculator a = roi_calculator b \<and> roi_calculator b = Inr (result_of a)"
    by (intro conjI)
  then show ?thesis unfolding a_def b_def .
qed

section \<open>The year-on-year ROI list\<close>

lemma roi_calculator_not_zero_division:
  "1 \<le> fleet_size inp \<Longrightarrow>
     (roi_calculator inp = Inl ZeroDivisionError \<longleftrightarrow> fuel_price inp = 0)"
  by (simp add: roi_calculator_cases)

text \<open>
  Claim C10. With a license cost of zero the 3-year block raises
  \<^verbatim>\<open>ZeroDivisionError\<close>: the year-2 entry of \<^verbatim>\<open>yearly_roi\<close> divides by
  \<^verbatim>\<open>license_cost_annual * 2\<close> with no test in front of it (line 230), while the two
  guarded ratios \<^verbatim>\<open>roi_percent\<close> (line 213) and \<^verbatim>\<open>roi_percent_3yr\<close> (line 223) are
  not-a-number there. With a fleet of at least one vessel the license cost is not zero,
  the list is built without that error, and a whole run raises \<^verbatim>\<open>ZeroDivisionError\<close>
  only where the fuel price is zero.
\<close>

theorem year_two_roi_unguarded:
  "calc_yearly_roi roi ts 0 roi3 = Inl ZeroDivisionError \<and>
   three_year_view 0 ts roi fs er = Inl ZeroDivisionError \<and>
   calc_roi_percent ts 0 = None \<and>
   calc_roi_percent (ts * 3) (0 * 3) = None \<and>
   (1 \<le> fleet_size inp \<longrightarrow>
      fleet_size inp * LICENSE_COST_PER_VESSEL_PER_MONTH * 12 \<noteq> 0 \<and>
      calc_yearly_roi roi ts (fleet_size inp * LICENSE_COST_PER_VESSEL_PER_MONTH * 12) roi3
        \<noteq> Inl ZeroDivisionError \<and>
      (roi_calculator inp = Inl ZeroDivisionError \<longleftrightarrow> fuel_price inp = 0))"
proof (intro conjI impI)
  show y: "calc_yearly_roi roi ts 0 roi3 = Inl ZeroDivisionError"
    by (simp add: calc_yearly_roi_def truediv_def)
  show "three_year_view 0 ts roi fs er = Inl ZeroDivisionError"
    by (simp add: three_year_view_def calc_yearly_roi_def truediv_def)
  show "calc_roi_percent ts 0 = None" by (simp add: calc_roi_percent_def)
  show "calc_roi_percent (ts * 3) (0 * 3) = None" by (simp add: calc_roi_percent_def)
next
  assume f: "1 \<le> fleet_size inp"
  then show l: "fleet_size inp * LICENSE_COST_PER_VESSEL_PER_MONTH * 12 \<noteq> 0"
    by (simp add: LICENSE_COST_PER_VESSEL_PER_MONTH_def)
  then show "calc_yearly_roi roi ts (fleet_size inp * LICENSE_COST_PER_VESSEL_PER_MONTH * 12) roi3
        \<noteq> Inl ZeroDivisionError"
    by (simp add: calc_yearly_roi_def truediv_def)
  from f show "roi_calculator inp = Inl ZeroDivisionError \<longleftrightarrow> fuel_price inp = 0"
    by (rule roi_calculator_not_zero_division)
qed

theorem year_two_roi_unguarded_witness:
  "1 \<le> fleet_size (scenario True (\<lambda>n. 0)) \<and>
   fleet_size (scenario True (\<lambda>n. 0)) * LICENSE_COST_PER_VESSEL_PER_MONTH * 12 \<noteq> 0 \<and>
   calc_yearly_roi None 2722500
       (fleet_size (scenario True (\<lambda>n. 0)) * LICENSE_COST_PER_VESSEL_PER_MONTH * 12) None
     \<noteq> Inl ZeroDivisionError \<and>
   roi_calculator (scenario True (\<lambda>n. 0)) \<noteq> Inl ZeroDivisionError \<and>
   calc_yearly_roi None 2722500 0 None = Inl ZeroDivisionError"
proof -
  define inp where "inp = scenario True (\<lambda>n. 0)"
  have f: "1 \<le> fleet_size inp" by (simp add: inp_def scenario_fields)
  have p: "fuel_price inp \<noteq> 0" by (simp add: inp_def scenario_fields)
  note Y = year_two_roi_unguarded [of None 2722500 None 0 0 inp]
  note y0 = Y [THEN conjunct1]
  note U = Y [THEN conjunct2, THEN conjunct2, THEN conjunct2, THEN conjunct2, THEN mp, OF f]
  note u1 = U [THEN conjunct1]
  note u2 = U [THEN conjunct2, THEN conjunct1]
  note u3 = U [THEN conjunct2, THEN conjunct2]
  have r: "roi_calculator inp \<noteq> Inl ZeroDivisionError"
    using p unfolding u3 .
  from f u1 u2 r y0 have "1 \<le> fleet_size inp \<and>
   fleet_size inp * LICENSE_COST_PER_VESSEL_PER_MONTH * 12 \<noteq> 0 \<and>
   calc_yearly_roi None 2722500
       (fleet_size inp * LICENSE_COST_PER_VESSEL_PER_MONTH * 12) None
     \<noteq> Inl ZeroDivisionError \<and>
   roi_calculator inp \<noteq> Inl ZeroDivisionError \<and>
   calc_yearly_roi None 2722500 0 None = Inl ZeroDivisionError"
    by (intro conjI)
  then show ?thesis unfolding inp_def .
qed

section \<open>Rounding\<close>

text \<open>
  A binary64 number rounds to itself, a number of magnitude \<open>2 ^ 1024\<close> or more rounds
  to an infinity, a finite result of rounding is a binary64 number, and a number of
  magnitude 1 or more does not round to zero.
\<close>

lemma rne_of_int: "rne (of_int n) = n"
  by (simp add: rne_def)


lemma ulp_exp_le:
  assumes "x \<noteq> 0" and "\<bar>x\<bar> < 2 powr (53 + of_int e)" and "- 1074 \<le> e"
  shows "ulp_exp x \<le> e"
proof -
  have "log 2 \<bar>x\<bar> < 53 + of_int e"
    using assms(1,2) by (simp add: log_less_iff)
  then have "\<lfloor>log 2 \<bar>x\<bar>\<rfloor> < 53 + e" by linarith
  then show ?thesis using assms(3) by (simp add: ulp_exp_def)
qed

lemma round64_exact:
  assumes "representable x"
  shows "round64 x = Fin x"
proof (cases "x = 0")
  case True
  then show ?thesis by (simp add: round64_def)
next
  case False
  from assms obtain m e where
    m: "\<bar>m\<bar> < 2 ^ 53" and e: "- 1074 \<le> e" "e \<le> 971"
    and x: "x = of_int m * 2 powr of_int e"
    unfolding representable_def by blast
  have am: "\<bar>real_of_int m\<bar> < 2 ^ 53" using m by (metis of_int_abs of_int_less_numeral_power_cancel_iff)
  have "\<bar>x\<bar> = \<bar>of_int m\<bar> * 2 powr of_int e" unfolding x by (simp add: abs_mult)
  also have "\<dots> < 2 ^ 53 * 2 powr of_int e" using am by simp
  also have "\<dots> = 2 powr (53 + of_int e)" by (simp add: powr_add)
  finally have lt: "\<bar>x\<bar> < 2 powr (53 + of_int e)" .
  define k where "k = ulp_exp x"
  have k: "k \<le> e" unfolding k_def using False lt e(1) by (rule ulp_exp_le)
  define n where "n = m * 2 ^ nat (e - k)"
  have p: "(2::real) powr of_int e = 2 ^ nat (e - k) * 2 powr of_int k"
  proof -
    have "(2::real) powr of_int e = 2 powr (of_int (e - k) + of_int k)" by simp
    also have "\<dots> = 2 powr of_int (e - k) * 2 powr of_int k" by (simp only: powr_add)
    also have "2 powr of_int (e - k) = (2::real) ^ nat (e - k)"
      using k by (simp add: powr_realpow [symmetric])
    finally show ?thesis .
  qed
  have q: "x / 2 powr of_int k = of_int n"
    unfolding x p n_def by simp
  have y: "of_int (rne (x / 2 powr of_int k)) * 2 powr of_int k = x"
    unfolding q rne_of_int unfolding x p n_def by simp
  have "\<bar>x\<bar> < 2 powr (53 + of_int e)" by (rule lt)
  also have "\<dots> \<le> 2 powr 1024" by (rule powr_mono) (use e(2) in simp_all)
  also have "\<dots> = 2 ^ 1024" using powr_realpow [of "2::real" 1024] by simp
  finally have b: "\<not> 2 ^ 1024 \<le> \<bar>x\<bar>" by simp
  show ?thesis
    using False b by (simp add: round64_def Let_def k_def [symmetric] y)
qed
















lemma representable_int: "\<bar>i\<bar> < 2 ^ 53 \<Longrightarrow> representable (of_int i)"
  unfolding representable_def by (intro exI [of _ i] exI [of _ 0] conjI) simp_all

section \<open>The loops over binary64\<close>

lemma truediv64_100: "truediv64 a (Fin 100) = Inr (div100 a)"
  by (cases a) (simp_all add: div100_def signed_inf_def)

lemma savings_loop64_eq:
  "distinct (keys apps) \<Longrightarrow> set (keys apps) \<inter> set (keys acc) = {} \<Longrightarrow>
   \<forall>n \<in> set (keys apps). getitem sel n = Inr (cb n) \<Longrightarrow>
   savings_loop64 apps sl sel acc
     = Inr (acc @ map (\<lambda>(n, i). (n, if cb n then sl n else Fin 0)) apps)"
proof (induction apps arbitrary: acc)
  case Nil
  then show ?case by simp
next
  case (Cons a apps)
  obtain n i where a: "a = (n, i)" by (cases a)
  from Cons.prems have fresh: "n \<notin> set (keys acc)" and d: "distinct (keys apps)"
    and nn: "n \<notin> set (keys apps)" and disj: "set (keys apps) \<inter> set (keys acc) = {}"
    and g: "getitem sel n = Inr (cb n)"
    and gs: "\<forall>n \<in> set (keys apps). getitem sel n = Inr (cb n)"
    by (auto simp: a keys_def)
  have "set (keys apps) \<inter> set (keys (acc @ [(n, if cb n then sl n else Fin 0)])) = {}"
    using disj nn by (auto simp: keys_def)
  from Cons.IH [OF d this gs] show ?case
    by (simp add: a g setitem_fresh [OF fresh])
qed

lemma amounts_loop64_eq:
  "distinct ks \<Longrightarrow> set ks \<inter> set (keys acc) = {} \<Longrightarrow>
   \<forall>n \<in> set ks. getitem sav n = Inr (f n) \<Longrightarrow>
   amounts_loop64 ks b sav (acc, t)
     = Inr (acc @ map (\<lambda>n. (n, amount64 b (f n))) ks,
            foldl fadd t (map (\<lambda>n. amount64 b (f n)) ks))"
proof (induction ks arbitrary: acc t)
  case Nil
  then show ?case by simp
next
  case (Cons n ks)
  from Cons.prems have fresh: "n \<notin> set (keys acc)" and d: "distinct ks"
    and nn: "n \<notin> set ks" and disj: "set ks \<inter> set (keys acc) = {}"
    and g: "getitem sav n = Inr (f n)"
    and gs: "\<forall>n \<in> set ks. getitem sav n = Inr (f n)"
    by auto
  have "set ks \<inter> set (keys (acc @ [(n, amount64 b (f n))])) = {}"
    using disj nn by (auto simp: keys_def)
  from Cons.IH [OF d this gs] show ?case
    by (simp add: g setitem_fresh [OF fresh] truediv64_100 amount64_def del: truediv64.simps)
qed

lemma collect64_eq:
  "savings_loop64 applications sl (select_loop applications cb []) []
     = Inr (map (\<lambda>(n, i). (n, effective64 cb sl n)) applications)"
proof -
  have sel: "select_loop applications cb [] = map (\<lambda>(n, i). (n, cb n)) applications"
    using select_loop_eq [OF distinct_applications, of "[]"] by (simp add: keys_def)
  have "\<forall>n \<in> set (keys applications).
          getitem (map (\<lambda>(n, i). (n, cb n)) applications) n = Inr (cb n)"
    by (simp add: getitem_map)
  from savings_loop64_eq [OF distinct_applications _ this, of "[]" sl]
  show ?thesis by (simp add: sel keys_def effective64_def)
qed

lemma core_amounts64:
  "amounts_loop64 (keys applications) b
     (map (\<lambda>(n, i). (n, effective64 cb sl n)) applications) ([], Fin 0)
   = Inr (amounts_of64 b cb sl, foldl fadd (Fin 0) (values_of (amounts_of64 b cb sl)))"
proof -
  have "\<forall>n \<in> set (keys applications).
          getitem (map (\<lambda>(n, i). (n, effective64 cb sl n)) applications) n
            = Inr (effective64 cb sl n)"
    by (simp add: getitem_map)
  from amounts_loop64_eq [OF distinct_applications _ this, of "[]" b "Fin 0"]
  show ?thesis
    by (simp add: keys_def values_of_def amounts_of64_def comp_def case_prod_beta)
qed

lemma ratios64_eq:
  "ratios64 fleet price daily days cb sl =
     (case float_of_int fleet of
        Inl e \<Rightarrow> Inl e
      | Inr fl \<Rightarrow>
     (case float_of_int days of
        Inl e \<Rightarrow> Inl e
      | Inr dy \<Rightarrow>
     (case payback_years64 (fleet * LICENSE_COST_PER_VESSEL_PER_MONTH * 12)
             (foldl fadd (Fin 0)
                (values_of (amounts_of64 (fmul (fmul (fmul fl daily) dy) price) cb sl))) of
        Inl e \<Rightarrow> Inl e
      | Inr py \<Rightarrow>
     (case roi_percent64
             (foldl fadd (Fin 0)
                (values_of (amounts_of64 (fmul (fmul (fmul fl daily) dy) price) cb sl)))
             (fleet * LICENSE_COST_PER_VESSEL_PER_MONTH * 12) of
        Inl e \<Rightarrow> Inl e
      | Inr r \<Rightarrow>
          Inr \<lparr>license_cost64 = fleet * LICENSE_COST_PER_VESSEL_PER_MONTH * 12,
               baseline64 = fmul (fmul (fmul fl daily) dy) price,
               amounts64 = amounts_of64 (fmul (fmul (fmul fl daily) dy) price) cb sl,
               savings64 = foldl fadd (Fin 0)
                 (values_of (amounts_of64 (fmul (fmul (fmul fl daily) dy) price) cb sl)),
               years64 = py, months64 = payback_months64 py, roi64 = r\<rparr>))))"
  unfolding ratios64_def core_ratios64_def Let_def collect64_eq sum.case core_amounts64 prod.case
  by (rule refl)

section \<open>Undefined ratios\<close>



lemma round64_int: "\<bar>i\<bar> < 2 ^ 53 \<Longrightarrow> round64 (of_int i) = Fin (of_int i)"
  by (rule round64_exact) (rule representable_int)



lemma float_of_int_small: "\<bar>i\<bar> < 2 ^ 53 \<Longrightarrow> float_of_int i = Inr (Fin (of_int i))"
  by (simp add: float_of_int_def round64_int)









lemma ratios64_InrD:
  assumes "ratios64 fleet price daily days cb sl = Inr m"
  shows "\<exists>fl dy. float_of_int fleet = Inr fl \<and> float_of_int days = Inr dy \<and>
           baseline64 m = fmul (fmul (fmul fl daily) dy) price"
    and "license_cost64 m = fleet * LICENSE_COST_PER_VESSEL_PER_MONTH * 12"
    and "amounts64 m = amounts_of64 (baseline64 m) cb sl"
    and "savings64 m = foldl fadd (Fin 0) (values_of (amounts64 m))"
    and "payback_years64 (license_cost64 m) (savings64 m) = Inr (years64 m)"
    and "months64 m = payback_months64 (years64 m)"
    and "roi_percent64 (savings64 m) (license_cost64 m) = Inr (roi64 m)"
  using assms unfolding ratios64_eq by (auto split: sum.splits)


lemma payback_years64_returns:
  assumes "\<bar>lc\<bar> < 2 ^ 53"
  shows "\<exists>y. payback_years64 lc sv = Inr y"
  unfolding payback_years64_def truthy64_def float_of_int_small [OF assms]
  by (cases sv) simp_all

lemma roi_percent64_returns:
  assumes "\<bar>lc\<bar> < 2 ^ 53"
  shows "\<exists>r. roi_percent64 sv lc = Inr r"
  unfolding roi_percent64_def float_of_int_small [OF assms]
  by simp

lemma ratios64_returns:
  assumes "\<bar>fleet\<bar> < 2 ^ 40" and "\<bar>days\<bar> < 2 ^ 53"
  shows "\<exists>m. ratios64 fleet price daily days cb sl = Inr m"
proof -
  from assms(1) have f: "\<bar>fleet\<bar> < 2 ^ 53" by simp
  from assms(1) have l: "\<bar>fleet * LICENSE_COST_PER_VESSEL_PER_MONTH * 12\<bar> < 2 ^ 53"
    by (simp add: LICENSE_COST_PER_VESSEL_PER_MONTH_def abs_mult)
  obtain y where y: "payback_years64 (fleet * LICENSE_COST_PER_VESSEL_PER_MONTH * 12)
      (foldl fadd (Fin 0) (values_of (amounts_of64
         (fmul (fmul (fmul (Fin (of_int fleet)) daily) (Fin (of_int days))) price) cb sl))) = Inr y"
    using payback_years64_returns [OF l] by blast
  obtain r where r: "roi_percent64
      (foldl fadd (Fin 0) (values_of (amounts_of64
         (fmul (fmul (fmul (Fin (of_int fleet)) daily) (Fin (of_int days))) price) cb sl)))
      (fleet * LICENSE_COST_PER_VESSEL_PER_MONTH * 12) = Inr r"
    using roi_percent64_returns [OF l] by blast
  show ?thesis
    unfolding ratios64_eq float_of_int_small [OF f] float_of_int_small [OF assms(2)] sum.case y r
    by (rule exI) (rule refl)
qed






lemma float_of_int_1: "float_of_int 1 = Inr (Fin 1)"
  using float_of_int_small [of 1] by simp



section \<open>Runs in which every step is exact\<close>

lemma round64_numeral:
  "numeral k < (2::int) ^ 53 \<Longrightarrow> round64 (numeral k) = Fin (numeral k)"
  using round64_int [of "numeral k"] by simp


lemma round64_one: "round64 1 = Fin 1"
  using round64_int [of 1] by simp




section \<open>No application selected\<close>














section \<open>An application that is not selected\<close>






lemma getitem_amounts64:
  "n \<in> set (keys applications) \<Longrightarrow>
     getitem (amounts_of64 b cb sl) n = Inr (amount64 b (effective64 cb sl n))"
  unfolding amounts_of64_def by (rule getitem_map)





section \<open>An application that is selected\<close>

text \<open>
  Claim C8. For an application of the catalog that is ticked, the amount stored for it
  in \<^verbatim>\<open>app_saving_amounts\<close> is \<^verbatim>\<open>baseline_fuel_cost * saving_percentage / 100\<close> as
  binary64 computes it from the slider's value, whatever that value is: nothing on
  lines 204--208 compares it with the catalog's minimum or maximum.
\<close>

theorem selected_amount_unclamped64:
  assumes "n \<in> set (keys applications)" and "cb n"
    and "ratios64 fleet price daily days cb sl = Inr m"
  shows "\<exists>q. truediv64 (fmul (baseline64 m) (sl n)) (Fin 100) = Inr q \<and>
             getitem (amounts64 m) n = Inr q"
proof -
  note D = ratios64_InrD [OF assms(3)]
  have e: "effective64 cb sl n = sl n" using assms(2) by (simp add: effective64_def)
  have g: "getitem (amounts64 m) n = Inr (div100 (fmul (baseline64 m) (sl n)))"
    unfolding D(3) getitem_amounts64 [OF assms(1)] e amount64_def ..
  show ?thesis
    by (intro exI [of _ "div100 (fmul (baseline64 m) (sl n))"] conjI truediv64_100 g)
qed

theorem selected_amount_unclamped64_witness:
  "''Hull Maintainance App'' \<in> set (keys applications) \<and>
   (\<exists>i. getitem applications ''Hull Maintainance App'' = Inr i \<and> info_max i = 15) \<and>
   (\<exists>m. ratios64 1 (Fin 18000) (Fin 1) 1 (\<lambda>n. n = ''Hull Maintainance App'') (\<lambda>n. Fin 20) = Inr m \<and>
        baseline64 m = Fin 18000 \<and>
        getitem (amounts64 m) ''Hull Maintainance App'' = Inr (Fin 3600))"
proof -
  have i: "\<exists>i. getitem applications ''Hull Maintainance App'' = Inr i \<and> info_max i = 15"
    by (simp add: applications_def)
  have "\<bar>1::int\<bar> < 2 ^ 40" "\<bar>1::int\<bar> < 2 ^ 53" by simp_all
  then obtain m where
    E: "ratios64 1 (Fin 18000) (Fin 1) 1 (\<lambda>n. n = ''Hull Maintainance App'') (\<lambda>n. Fin 20) = Inr m"
    using ratios64_returns by blast
  from ratios64_InrD(1) [OF E] have b: "baseline64 m = Fin 18000"
    by (auto simp: float_of_int_1 round64_one round64_numeral)
  have c: "(\<lambda>n. n = ''Hull Maintainance App'') ''Hull Maintainance App''" by simp
  from selected_amount_unclamped64 [OF hull_in_catalog c E] obtain q where
    q: "truediv64 (fmul (baseline64 m) (Fin 20)) (Fin 100) = Inr q"
    and g: "getitem (amounts64 m) ''Hull Maintainance App'' = Inr q"
    by blast
  from q have "q = Fin 3600" unfolding b by (simp add: round64_numeral)
  with g have g': "getitem (amounts64 m) ''Hull Maintainance App'' = Inr (Fin 3600)" by simp
  have "\<exists>m. ratios64 1 (Fin 18000) (Fin 1) 1 (\<lambda>n. n = ''Hull Maintainance App'') (\<lambda>n. Fin 20) = Inr m \<and>
        baseline64 m = Fin 18000 \<and>
        getitem (amounts64 m) ''Hull Maintainance App'' = Inr (Fin 3600)"
    by (intro exI [of _ m] conjI E b g')
  with hull_in_catalog i show ?thesis by (intro conjI)
qed

end
